theory Spec2Isabelle
  imports Complex_Main "HOL-Library.Char_ord" "HOL-Library.List_Lexorder" "HOL-Library.Multiset"
begin

section \<open>Domain model (types.ts)\<close>

text \<open>
  The records follow the interfaces of \<^verbatim>\<open>src/types.ts\<close>. A TypeScript \<^verbatim>\<open>number\<close> that holds a
  macro value is a \<open>number\<close> (below): one of the values of an IEEE double. The settings'
  numbers are only stored and passed on, and are integers.
  Strings are \<^typ>\<open>string\<close>, compared as JavaScript compares them (lexicographically, by
  code unit), which is the order of \<^verbatim>\<open>List_Lexorder\<close> over \<^verbatim>\<open>Char_ord\<close>.
\<close>

datatype ActivityLevel = sedentary | active | athlete

record Inventory =
  oven :: bool
  blender :: bool
  castIron :: bool
  wok :: bool
  kitchenAid :: bool
  nonStickPan :: bool
  airFryer :: bool

record UserSettings =
  name :: string
  weight :: int
  activityLevel :: ActivityLevel
  targetCalories :: int
  targetProtein :: int
  targetCarbs :: int
  inventory :: Inventory
  excludedIngredients :: string

text \<open>
  The values of a JavaScript number: \<^verbatim>\<open>NaN\<close>, the two infinities, negative zero, and the
  finite values, each a rational (\<open>Val 0\<close> is \<open>+0\<close>). Every double is one of these. The
  arithmetic on them, rounding included, is not defined here: where the code adds, the
  language's addition is a parameter (\<open>js_add\<close> below).
\<close>

datatype number = NaN | PosInfinity | NegInfinity | NegZero | Val rat

text \<open>A thrown exception, by its kind.\<close>

datatype exn = SyntaxError | TypeError

text \<open>
  \<^verbatim>\<open>MacroData\<close> and \<^verbatim>\<open>IngredientItem\<close> share the four macro fields. At run time the fields of
  an ingredient are not always numbers: \<^verbatim>\<open>handleIngredientChange\<close> stores the raw
  \<^verbatim>\<open>e.target.value\<close> (a string) into them, and the objects come unchecked out of
  \<^verbatim>\<open>JSON.parse\<close>, where a field can be missing or hold any JSON value. \<open>jsval\<close> is the set
  of values such a field can hold; \<open>JMissing\<close> is \<^verbatim>\<open>undefined\<close>.
\<close>

record 'n Macros =
  calories :: 'n
  protein :: 'n
  fat :: 'n
  carbs :: 'n

type_synonym MacroData = "number Macros"

datatype jsval =
  JNum number | JStr string | JBool bool | JNull | JMissing | JArr "jsval list"
  | JObj "(string \<times> jsval) list"

record IngredientItem = "jsval Macros" +
  amount :: string
  item :: string

record CookingStep =
  step_text :: string
  timer_seconds :: "int option"

record RecipeVariation =
  ingredients :: "IngredientItem list"
  notes_text :: string
  steps :: "CookingStep list"

datatype VariationKey = Proteins | Balanced | Carbs

text \<open>
  \<^verbatim>\<open>variations: { Proteins; Balanced; Carbs }\<close> is an object with exactly these three keys,
  read with a computed key (\<^verbatim>\<open>variations[activeTab]\<close>) and copied with one key replaced
  (\<^verbatim>\<open>{...variations, [activeTab]: v}\<close>): a total function on \<^typ>\<open>VariationKey\<close>.
\<close>

record RecipeAnalysis =
  title :: string
  original_macros :: MacroData
  variations :: "VariationKey \<Rightarrow> RecipeVariation"

record SavedRecipe =
  sr_id :: string
  sr_title :: string
  sr_timestamp :: nat
  sr_analysis :: RecipeAnalysis

record DayPlan =
  date :: string
  recipeId :: "string option"
  variation :: "VariationKey option"

datatype AppState =
  HOME | COOKBOOK | CONFIG | INPUT | ANALYZING | RESULTS | SHOPPING_LIST | ERROR
  | RECIPE_SELECTOR

datatype ShoppingView = RECIPE | ALPHA

section \<open>Component state (App.tsx, the \<^verbatim>\<open>useState\<close> cells)\<close>

text \<open>
  One field per \<^verbatim>\<open>useState\<close> cell of \<^verbatim>\<open>App\<close>. \<^verbatim>\<open>currentWeekStart\<close> is a \<^verbatim>\<open>Date\<close>; the functions that
  need the visible week take its two formatted ends (\<^verbatim>\<open>startStr\<close>, \<^verbatim>\<open>endStr\<close>) as arguments.
\<close>

record App =
  settings :: UserSettings
  appState :: AppState
  analysis :: "RecipeAnalysis option"
  activeTab :: VariationKey
  currentIngredients :: "IngredientItem list"
  currentTitle :: string
  isLoading :: bool
  isRefining :: bool
  refineText :: string
  errorMsg :: "string option"
  textInput :: string
  selectedImages :: "string list"
  cookbook :: "SavedRecipe list"
  weekPlan :: "DayPlan list"
  shoppingView :: ShoppingView
  checkedItems :: "string set"
  selectedRecipeId :: "string option"
  selectingForDate :: "string option"

definition DEFAULT_SETTINGS :: UserSettings where
  "DEFAULT_SETTINGS =
     \<lparr>name = ''Athlete'', weight = 72, activityLevel = active, targetCalories = 700,
      targetProtein = 40, targetCarbs = 50,
      inventory = \<lparr>oven = False, blender = False, castIron = False, wok = False,
                   kitchenAid = False, nonStickPan = False, airFryer = False\<rparr>,
      excludedIngredients = ''''\<rparr>"

definition initialApp :: App where
  "initialApp =
     \<lparr>settings = DEFAULT_SETTINGS, appState = HOME, analysis = None, activeTab = Balanced,
      currentIngredients = [], currentTitle = '''', isLoading = False, isRefining = False,
      refineText = '''', errorMsg = None, textInput = '''', selectedImages = [],
      cookbook = [], weekPlan = [], shoppingView = RECIPE, checkedItems = {},
      selectedRecipeId = None, selectingForDate = None\<rparr>"

text \<open>\<^verbatim>\<open>Number.prototype.toString\<close> on a non-negative integer: its decimal digits.\<close>

fun toString :: "nat \<Rightarrow> string" where
  "toString n =
     (if n < 10 then [''0123456789'' ! n]
      else toString (n div 10) @ [''0123456789'' ! (n mod 10)])"

declare toString.simps [simp del]

section \<open>Effects that mirror the stored recipe into the edit buffer\<close>

text \<open>
  \<^verbatim>\<open>useEffect(..., [activeTab, appState, analysis])\<close>, App.tsx lines 128-133: the body of the
  effect. React runs it after a render in which one of the three dependencies changed.
\<close>

definition syncResults :: "App \<Rightarrow> App" where
  "syncResults s =
     (case analysis s of
        None \<Rightarrow> s
      | Some a \<Rightarrow>
          if appState s = RESULTS
          then s\<lparr>currentIngredients := ingredients (variations a (activeTab s)),
                 currentTitle := title a\<rparr>
          else s)"

text \<open>
  \<^verbatim>\<open>useEffect(..., [activeTab, selectedRecipeId, appState])\<close>, lines 136-144.
  \<^verbatim>\<open>cookbook.find\<close> returns the first recipe with the id.
\<close>

definition syncCookbook :: "App \<Rightarrow> App" where
  "syncCookbook s =
     (case selectedRecipeId s of
        None \<Rightarrow> s
      | Some rid \<Rightarrow>
          if appState s = COOKBOOK \<and> rid \<noteq> ''''
          then (case find (\<lambda>r. sr_id r = rid) (cookbook s) of
                  None \<Rightarrow> s
                | Some recipe \<Rightarrow>
                    s\<lparr>currentIngredients :=
                         ingredients (variations (sr_analysis recipe) (activeTab s)),
                       currentTitle := sr_title recipe\<rparr>)
          else s)"

text \<open>
  The tab buttons call \<^verbatim>\<open>setActiveTab(tab)\<close> (lines 695 and 882). Setting a state cell to the
  value it already holds is no change: React does not re-render and no dependency of an
  effect differs, so neither effect runs. Otherwise \<^verbatim>\<open>activeTab\<close> is a dependency of both
  effects and both run against the new render.
\<close>

definition setActiveTab :: "VariationKey \<Rightarrow> App \<Rightarrow> App" where
  "setActiveTab tab s =
     (if tab = activeTab s then s
      else syncCookbook (syncResults (s\<lparr>activeTab := tab\<rparr>)))"

section \<open>Macro aggregator\<close>














section \<open>Planner handlers\<close>

text \<open>
  The planner's "+" button (lines 464-467): \<^verbatim>\<open>setSelectingForDate(day.dateStr);
  setAppState(AppState.RECIPE_SELECTOR)\<close>.
\<close>

definition selectDate :: "string \<Rightarrow> App \<Rightarrow> App" where
  "selectDate d s = s\<lparr>selectingForDate := Some d, appState := RECIPE_SELECTOR\<rparr>"

text \<open>
  \<^verbatim>\<open>assignToDate\<close>, lines 294-307. \<^verbatim>\<open>!selectingForDate\<close> holds for \<^verbatim>\<open>null\<close> and for the empty
  string; then the handler returns at once.
\<close>

definition assignToDate :: "string \<Rightarrow> VariationKey \<Rightarrow> App \<Rightarrow> App" where
  "assignToDate rid v s =
     (case selectingForDate s of
        None \<Rightarrow> s
      | Some d \<Rightarrow>
          if d = '''' then s
          else
            let newPlanItem = \<lparr>date = d, recipeId = Some rid, variation = Some v\<rparr>;
                filtered = filter (\<lambda>p. date p \<noteq> d) (weekPlan s)
            in s\<lparr>weekPlan := filtered @ [newPlanItem],
                 selectingForDate := None,
                 appState := HOME\<rparr>)"

text \<open>\<^verbatim>\<open>clearDate\<close>, lines 309-311.\<close>

definition clearDate :: "string \<Rightarrow> App \<Rightarrow> App" where
  "clearDate d s = s\<lparr>weekPlan := filter (\<lambda>p. date p \<noteq> d) (weekPlan s)\<rparr>"

section \<open>Saving a result to the cookbook\<close>

text \<open>
  \<^verbatim>\<open>saveNewRecipe\<close>, lines 240-268. \<^verbatim>\<open>Date.now()\<close> is read twice, once for the id and once for
  the timestamp; the two readings are the arguments \<open>now_id\<close> and \<open>now_ts\<close>. After the
  update \<^verbatim>\<open>appState\<close> is \<^verbatim>\<open>COOKBOOK\<close>, so of the two effects only the cookbook one can act, and
  it runs when one of its dependencies (\<^verbatim>\<open>appState\<close>, \<^verbatim>\<open>selectedRecipeId\<close>) changed.
\<close>

definition saveNewRecipe :: "nat \<Rightarrow> nat \<Rightarrow> App \<Rightarrow> App" where
  "saveNewRecipe now_id now_ts s =
     (case analysis s of
        None \<Rightarrow> s
      | Some a \<Rightarrow>
          let finalAnalysis =
                a\<lparr>title := currentTitle s,
                  variations := (variations a)
                    (activeTab s := (variations a (activeTab s))
                                      \<lparr>ingredients := currentIngredients s\<rparr>)\<rparr>;
              newRecipe = \<lparr>sr_id = toString now_id, sr_title = currentTitle s,
                           sr_timestamp = now_ts, sr_analysis = finalAnalysis\<rparr>;
              s' = s\<lparr>cookbook := newRecipe # cookbook s,
                     textInput := '''',
                     selectedImages := [],
                     appState := COOKBOOK,
                     selectedRecipeId := Some (sr_id newRecipe)\<rparr>
          in if appState s \<noteq> COOKBOOK \<or> selectedRecipeId s \<noteq> Some (sr_id newRecipe)
             then syncCookbook s' else s')"

section \<open>The analysis gateway and the analyze handler\<close>

text \<open>
  \<^verbatim>\<open>analyzeRecipeWithGemini\<close>, geminiService.ts lines 126-180. What lies outside the
  repository is a parameter, gathered in \<open>Gemini\<close>: the configured key, the prompt text
  built from the settings, the SDK call \<^verbatim>\<open>ai.models.generateContent\<close> (it either throws an
  error, given by its \<^verbatim>\<open>message\<close> with the empty string for an empty or absent one, or
  answers with \<^verbatim>\<open>response.text\<close>), and \<^verbatim>\<open>JSON.parse\<close> with the cast to \<^verbatim>\<open>RecipeAnalysis\<close> (it
  throws a \<^verbatim>\<open>SyntaxError\<close>, given by its message, or yields the analysis). A thrown
  \<^verbatim>\<open>Error\<close> is \<open>Inl\<close> of its message. The second component of the result lists the SDK
  requests the call has issued.
\<close>

datatype Part = InlineData string string | TextPart string

record GenRequest =
  req_model :: string
  req_parts :: "Part list"
  req_systemInstruction :: string

record Gemini =
  API_KEY :: string
  getSystemPrompt :: "UserSettings \<Rightarrow> string"
  generateContent :: "GenRequest \<Rightarrow> string + string option"
  JSON_parse :: "string \<Rightarrow> string + RecipeAnalysis"

definition analyzeRecipeWithGemini ::
  "Gemini \<Rightarrow> UserSettings \<Rightarrow> string list \<Rightarrow> string
     \<Rightarrow> (string + RecipeAnalysis) \<times> GenRequest list" where
  "analyzeRecipeWithGemini env userSettings imagesBase64 txt =
     (if API_KEY env = '''' then (Inl ''API Key is missing.'', [])
      else
        let systemPrompt = getSystemPrompt env userSettings;
            parts = map (InlineData ''image/jpeg'') imagesBase64
                    @ (if txt \<noteq> '''' then [TextPart txt] else []);
            req = \<lparr>req_model = ''gemini-2.5-pro'', req_parts = parts,
                   req_systemInstruction = systemPrompt\<rparr>;
            attempt =
              (case generateContent env req of
                 Inl m \<Rightarrow> Inl m
               | Inr None \<Rightarrow> Inl ''No response from Gemini.''
               | Inr (Some t) \<Rightarrow>
                   if t = '''' then Inl ''No response from Gemini.''
                   else JSON_parse env t)
        in (case attempt of
              Inl m \<Rightarrow> Inl (if m \<noteq> '''' then m else ''Failed to analyze recipe.'')
            | Inr a \<Rightarrow> Inr a,
            [req]))"

text \<open>
  \<^verbatim>\<open>handleAnalyze\<close>, App.tsx lines 181-196. The result pairs the state after the handler
  (and after the effect that the new \<^verbatim>\<open>analysis\<close> object triggers) with the log of gateway
  calls the handler has made: the arguments of each call and the SDK requests it issued.
\<close>

record AnalyzeCall =
  call_settings :: UserSettings
  call_images :: "string list"
  call_text :: string
  call_requests :: "GenRequest list"

definition handleAnalyze :: "Gemini \<Rightarrow> App \<Rightarrow> App \<times> AnalyzeCall list" where
  "handleAnalyze env s =
     (let s1 = s\<lparr>isLoading := True, appState := ANALYZING, errorMsg := None\<rparr>;
          (outcome, reqs) =
             analyzeRecipeWithGemini env (settings s) (selectedImages s) (textInput s);
          s2 = (case outcome of
                  Inr result \<Rightarrow>
                    s1\<lparr>analysis := Some result, appState := RESULTS, activeTab := Balanced\<rparr>
                | Inl message \<Rightarrow>
                    s1\<lparr>errorMsg := Some message, appState := ERROR\<rparr>)
      in (syncResults (s2\<lparr>isLoading := False\<rparr>),
          [\<lparr>call_settings = settings s, call_images = selectedImages s,
            call_text = textInput s, call_requests = reqs\<rparr>]))"

section \<open>Shopping list\<close>

text \<open>
  \<^verbatim>\<open>renderShoppingList\<close>, lines 517-658. \<^verbatim>\<open>String.prototype.localeCompare\<close> is a built-in that
  depends on the locale: it is the parameter \<open>localeCompare\<close>.

  \<^verbatim>\<open>Array.prototype.sort(cmp)\<close> is a stable sort; with a consistent comparator its result
  is the one of insertion sort that puts an element behind exactly those it compares
  greater than.
\<close>

fun js_insert :: "('a \<Rightarrow> 'a \<Rightarrow> int) \<Rightarrow> 'a \<Rightarrow> 'a list \<Rightarrow> 'a list" where
  "js_insert cmp x [] = [x]"
| "js_insert cmp x (y # ys) = (if cmp x y > 0 then y # js_insert cmp x ys else x # y # ys)"

fun js_sort :: "('a \<Rightarrow> 'a \<Rightarrow> int) \<Rightarrow> 'a list \<Rightarrow> 'a list" where
  "js_sort cmp [] = []"
| "js_sort cmp (x # xs) = js_insert cmp x (js_sort cmp xs)"

text \<open>The element type of \<^verbatim>\<open>allIngredients\<close>: \<^verbatim>\<open>{ date; title; item; id }\<close>.\<close>

record Entry =
  entry_date :: string
  entry_title :: string
  entry_item :: IngredientItem
  entry_id :: string

text \<open>The template literal \<^verbatim>\<open>`${plan.date}-${recipe.id}-${idx}`\<close>.\<close>

definition entryId :: "string \<Rightarrow> string \<Rightarrow> nat \<Rightarrow> string" where
  "entryId d rid idx = d @ ''-'' @ rid @ ''-'' @ toString idx"

definition activePlans :: "string \<Rightarrow> string \<Rightarrow> DayPlan list \<Rightarrow> DayPlan list" where
  "activePlans startStr endStr plans =
     filter (\<lambda>p. date p \<ge> startStr \<and> date p \<le> endStr \<and> recipeId p \<noteq> None) plans"

text \<open>\<^verbatim>\<open>cookbook.find(r => r.id === plan.recipeId)\<close>.\<close>

definition findRecipe :: "SavedRecipe list \<Rightarrow> string option \<Rightarrow> SavedRecipe option" where
  "findRecipe book rid = find (\<lambda>r. Some (sr_id r) = rid) book"

text \<open>
  The body of \<^verbatim>\<open>activePlans.forEach\<close> (lines 529-541); each \<^verbatim>\<open>push\<close> appends to the
  accumulated array.
\<close>

definition collectPlan :: "SavedRecipe list \<Rightarrow> Entry list \<Rightarrow> DayPlan \<Rightarrow> Entry list" where
  "collectPlan book acc plan =
     (case findRecipe book (recipeId plan) of
        None \<Rightarrow> acc
      | Some recipe \<Rightarrow>
          (case variation plan of
             None \<Rightarrow> acc
           | Some v \<Rightarrow>
               foldl (\<lambda>a (idx, ing).
                        a @ [\<lparr>entry_date = date plan, entry_title = sr_title recipe,
                              entry_item = ing,
                              entry_id = entryId (date plan) (sr_id recipe) idx\<rparr>])
                     acc
                     (enumerate 0 (ingredients (variations (sr_analysis recipe) v)))))"

definition allIngredients ::
  "string \<Rightarrow> string \<Rightarrow> DayPlan list \<Rightarrow> SavedRecipe list \<Rightarrow> Entry list" where
  "allIngredients startStr endStr plans book =
     foldl (collectPlan book) [] (activePlans startStr endStr plans)"

text \<open>A row of the alphabetical list: the entry and whether its id is checked.\<close>

record AlphaRow =
  alpha_entry :: Entry
  alpha_checked :: bool

definition alphaView ::
  "(string \<Rightarrow> string \<Rightarrow> int) \<Rightarrow> string \<Rightarrow> string \<Rightarrow> DayPlan list \<Rightarrow> SavedRecipe list
     \<Rightarrow> string set \<Rightarrow> AlphaRow list" where
  "alphaView localeCompare startStr endStr plans book checked =
     map (\<lambda>e. \<lparr>alpha_entry = e, alpha_checked = (entry_id e \<in> checked)\<rparr>)
         (js_sort (\<lambda>a b. localeCompare (item (entry_item a)) (item (entry_item b)))
                  (allIngredients startStr endStr plans book))"

text \<open>
  The by-date ("Recipe") view, lines 586-623: one card per active plan in date order, or
  \<^verbatim>\<open>null\<close> for a plan without recipe or variation; a card has the plan's date, the recipe's
  title, the variation and one row per ingredient.
\<close>

record RecipeRow =
  row_id :: string
  row_item :: IngredientItem
  row_checked :: bool

record Card =
  card_date :: string
  card_title :: string
  card_variation :: VariationKey
  card_rows :: "RecipeRow list"

definition recipeCard :: "SavedRecipe list \<Rightarrow> string set \<Rightarrow> DayPlan \<Rightarrow> Card option" where
  "recipeCard book checked plan =
     (case findRecipe book (recipeId plan) of
        None \<Rightarrow> None
      | Some recipe \<Rightarrow>
          (case variation plan of
             None \<Rightarrow> None
           | Some v \<Rightarrow>
               Some \<lparr>card_date = date plan, card_title = sr_title recipe, card_variation = v,
                     card_rows =
                       map (\<lambda>(i, ing).
                              let rid = entryId (date plan) (sr_id recipe) i
                              in \<lparr>row_id = rid, row_item = ing,
                                  row_checked = (rid \<in> checked)\<rparr>)
                           (enumerate 0 (ingredients (variations (sr_analysis recipe) v)))\<rparr>))"

definition recipeView ::
  "(string \<Rightarrow> string \<Rightarrow> int) \<Rightarrow> string \<Rightarrow> string \<Rightarrow> DayPlan list \<Rightarrow> SavedRecipe list
     \<Rightarrow> string set \<Rightarrow> Card option list" where
  "recipeView localeCompare startStr endStr plans book checked =
     map (recipeCard book checked)
         (js_sort (\<lambda>a b. localeCompare (date a) (date b)) (activePlans startStr endStr plans))"

datatype ShoppingRender = NoMeals | RecipeCards "Card option list" | AlphaList "AlphaRow list"

definition renderShoppingList ::
  "(string \<Rightarrow> string \<Rightarrow> int) \<Rightarrow> ShoppingView \<Rightarrow> string \<Rightarrow> string \<Rightarrow> DayPlan list
     \<Rightarrow> SavedRecipe list \<Rightarrow> string set \<Rightarrow> ShoppingRender" where
  "renderShoppingList localeCompare view startStr endStr plans book checked =
     (if activePlans startStr endStr plans = [] then NoMeals
      else if view = RECIPE
           then RecipeCards (recipeView localeCompare startStr endStr plans book checked)
           else AlphaList (alphaView localeCompare startStr endStr plans book checked))"

text \<open>
  The line entries a rendered list shows, each with its check mark: for a card, the
  card's date and title with each row's ingredient and id.
\<close>

definition cardEntries :: "Card option \<Rightarrow> (Entry \<times> bool) list" where
  "cardEntries c =
     (case c of
        None \<Rightarrow> []
      | Some cd \<Rightarrow>
          map (\<lambda>r. (\<lparr>entry_date = card_date cd, entry_title = card_title cd,
                      entry_item = row_item r, entry_id = row_id r\<rparr>, row_checked r))
              (card_rows cd))"

fun lineEntries :: "ShoppingRender \<Rightarrow> (Entry \<times> bool) list" where
  "lineEntries NoMeals = []"
| "lineEntries (RecipeCards cards) = concat (map cardEntries cards)"
| "lineEntries (AlphaList rows) = map (\<lambda>r. (alpha_entry r, alpha_checked r)) rows"

text \<open>
  The specification's reading of the aggregation: which plans contribute, and the
  entries of one contributing plan, indexed by position in the variation's list.
\<close>

definition contributes ::
  "string \<Rightarrow> string \<Rightarrow> SavedRecipe list \<Rightarrow> DayPlan \<Rightarrow> bool" where
  "contributes startStr endStr book p =
     (startStr \<le> date p \<and> date p \<le> endStr
      \<and> (\<exists>r \<in> set book. Some (sr_id r) = recipeId p)
      \<and> variation p \<noteq> None)"

definition planEntries :: "SavedRecipe list \<Rightarrow> DayPlan \<Rightarrow> Entry list" where
  "planEntries book p =
     (let recipe = the (findRecipe book (recipeId p));
          ings = ingredients (variations (sr_analysis recipe) (the (variation p)))
      in map (\<lambda>i. \<lparr>entry_date = date p, entry_title = sr_title recipe,
                    entry_item = ings ! i,
                    entry_id = date p @ ''-'' @ the (recipeId p) @ ''-'' @ toString i\<rparr>)
             [0 ..< length ings])"

section \<open>Loading the persisted slots\<close>

text \<open>
  The mount effect, App.tsx lines 96-117. A parsed JSON document is a \<open>json\<close>; what
  \<^verbatim>\<open>setCookbook(parsed)\<close> and its siblings store is whatever \<^verbatim>\<open>JSON.parse\<close> returned, so the
  loaded state holds \<open>json\<close> values, not checked records.

  For each key, \<open>stored\<close> is the outcome of \<^verbatim>\<open>localStorage.getItem\<close>: \<open>Absent\<close> when the
  item is \<^verbatim>\<open>null\<close> or the empty string (the guard \<^verbatim>\<open>if (saved...)\<close> is false), \<open>Unparseable\<close>
  for a non-empty string on which \<^verbatim>\<open>JSON.parse\<close> throws a \<^verbatim>\<open>SyntaxError\<close>, and \<open>Parsed j\<close>
  for a string that parses to \<open>j\<close>.
\<close>

datatype json =
  JsNull | JsBool bool | JsNumber int | JsString string | JsArray "json list"
  | JsObject "(string \<times> json) list"

datatype stored = Absent | Unparseable | Parsed json

text \<open>An own property of a parsed object; of a repeated key the last occurrence counts.\<close>

definition ownProp :: "(string \<times> json) list \<Rightarrow> string \<Rightarrow> json option" where
  "ownProp kvs k = map_of (rev kvs) k"

text \<open>
  \<^verbatim>\<open>parsed.length > 0\<close>. Reading a property of \<^verbatim>\<open>null\<close> throws a \<^verbatim>\<open>TypeError\<close>; numbers and
  booleans have no \<^verbatim>\<open>length\<close> (\<^verbatim>\<open>undefined > 0\<close> is false). On an object the own property
  \<^verbatim>\<open>length\<close> is compared with 0 by JavaScript's relational comparison, a built-in that
  is the parameter \<open>gt0\<close>.
\<close>

fun lengthPositive :: "(json \<Rightarrow> exn + bool) \<Rightarrow> json \<Rightarrow> exn + bool" where
  "lengthPositive gt0 JsNull = Inl TypeError"
| "lengthPositive gt0 (JsArray xs) = Inr (length xs > 0)"
| "lengthPositive gt0 (JsString str) = Inr (length str > 0)"
| "lengthPositive gt0 (JsObject kvs) =
     (case ownProp kvs ''length'' of None \<Rightarrow> Inr False | Some v \<Rightarrow> gt0 v)"
| "lengthPositive gt0 (JsBool b) = Inr False"
| "lengthPositive gt0 (JsNumber n) = Inr False"

text \<open>\<^verbatim>\<open>parsed[0]\<close> on a value that is not \<^verbatim>\<open>null\<close>; \<open>None\<close> is \<^verbatim>\<open>undefined\<close>.\<close>

fun index0 :: "json \<Rightarrow> json option" where
  "index0 (JsArray xs) = (case xs of [] \<Rightarrow> None | x # _ \<Rightarrow> Some x)"
| "index0 (JsString str) = (case str of [] \<Rightarrow> None | c # _ \<Rightarrow> Some (JsString [c]))"
| "index0 (JsObject kvs) = ownProp kvs ''0''"
| "index0 _ = None"

text \<open>\<^verbatim>\<open>x.analysis\<close>: a \<^verbatim>\<open>TypeError\<close> on \<^verbatim>\<open>undefined\<close> and \<^verbatim>\<open>null\<close>, \<^verbatim>\<open>undefined\<close> on a primitive
  or an array, the own property on an object.\<close>

fun readAnalysis :: "json option \<Rightarrow> exn + json option" where
  "readAnalysis None = Inl TypeError"
| "readAnalysis (Some JsNull) = Inl TypeError"
| "readAnalysis (Some (JsObject kvs)) = Inr (ownProp kvs ''analysis'')"
| "readAnalysis (Some _) = Inr None"

text \<open>Truthiness of a value read from parsed JSON.\<close>

fun truthy :: "json option \<Rightarrow> bool" where
  "truthy None = False"
| "truthy (Some JsNull) = False"
| "truthy (Some (JsBool b)) = b"
| "truthy (Some (JsNumber n)) = (n \<noteq> 0)"
| "truthy (Some (JsString str)) = (str \<noteq> '''')"
| "truthy (Some _) = True"

text \<open>The condition \<^verbatim>\<open>parsed.length > 0 && !parsed[0].analysis\<close> of line 105.\<close>

definition resetCondition :: "(json \<Rightarrow> exn + bool) \<Rightarrow> json \<Rightarrow> exn + bool" where
  "resetCondition gt0 parsed =
     (case lengthPositive gt0 parsed of
        Inl e \<Rightarrow> Inl e
      | Inr False \<Rightarrow> Inr False
      | Inr True \<Rightarrow>
          (case readAnalysis (index0 parsed) of
             Inl e \<Rightarrow> Inl e
           | Inr a \<Rightarrow> Inr (\<not> truthy a)))"

text \<open>
  \<^verbatim>\<open>new Set(v)\<close> on a parsed value: empty for \<^verbatim>\<open>null\<close>, the elements of an array, the
  characters of a string, and a \<^verbatim>\<open>TypeError\<close> for a value that is not iterable.
\<close>

fun newSet :: "json \<Rightarrow> exn + json set" where
  "newSet JsNull = Inr {}"
| "newSet (JsArray xs) = Inr (set xs)"
| "newSet (JsString str) = Inr (set (map (\<lambda>c. JsString [c]) str))"
| "newSet _ = Inl TypeError"

record Storage =
  stored_cookbook :: stored
  stored_weekPlan :: stored
  stored_userSettings :: stored
  stored_checkedItems :: stored

record Loaded =
  loaded_cookbook :: json
  loaded_weekPlan :: json
  loaded_settings :: json
  loaded_checkedItems :: "json set"

text \<open>\<^verbatim>\<open>JSON.stringify(settings)\<close> read back: the settings as a parsed document.\<close>

definition settingsJson :: "UserSettings \<Rightarrow> json" where
  "settingsJson u =
     JsObject
       [(''name'', JsString (name u)),
        (''weight'', JsNumber (weight u)),
        (''activityLevel'',
           JsString (case activityLevel u of
                       sedentary \<Rightarrow> ''sedentary'' | active \<Rightarrow> ''active''
                     | athlete \<Rightarrow> ''athlete'')),
        (''targetCalories'', JsNumber (targetCalories u)),
        (''targetProtein'', JsNumber (targetProtein u)),
        (''targetCarbs'', JsNumber (targetCarbs u)),
        (''inventory'',
           JsObject
             [(''oven'', JsBool (oven (inventory u))),
              (''blender'', JsBool (blender (inventory u))),
              (''castIron'', JsBool (castIron (inventory u))),
              (''wok'', JsBool (wok (inventory u))),
              (''kitchenAid'', JsBool (kitchenAid (inventory u))),
              (''nonStickPan'', JsBool (nonStickPan (inventory u))),
              (''airFryer'', JsBool (airFryer (inventory u)))]),
        (''excludedIngredients'', JsString (excludedIngredients u))]"

text \<open>The four cells before the mount effect runs: the \<^verbatim>\<open>useState\<close> defaults.\<close>

definition initialLoaded :: Loaded where
  "initialLoaded =
     \<lparr>loaded_cookbook = JsArray [], loaded_weekPlan = JsArray [],
      loaded_settings = settingsJson DEFAULT_SETTINGS, loaded_checkedItems = {}\<rparr>"

text \<open>
  The cookbook branch (lines 102-113): the \<^verbatim>\<open>try\<close> block catches the \<^verbatim>\<open>SyntaxError\<close> of
  \<^verbatim>\<open>JSON.parse\<close> and any \<^verbatim>\<open>TypeError\<close> of the condition, and then leaves the cell as it is.
\<close>

definition loadCookbook :: "(json \<Rightarrow> exn + bool) \<Rightarrow> stored \<Rightarrow> json \<Rightarrow> json" where
  "loadCookbook gt0 saved current =
     (case saved of
        Absent \<Rightarrow> current
      | Unparseable \<Rightarrow> current
      | Parsed parsed \<Rightarrow>
          (case resetCondition gt0 parsed of
             Inl e \<Rightarrow> current
           | Inr True \<Rightarrow> JsArray []
           | Inr False \<Rightarrow> parsed))"

text \<open>
  \<^verbatim>\<open>if (saved) setX(JSON.parse(saved))\<close>, lines 114-116: no \<^verbatim>\<open>try\<close> around it, so the
  exception leaves the effect.
\<close>

definition loadPlain :: "stored \<Rightarrow> json \<Rightarrow> exn + json" where
  "loadPlain saved current =
     (case saved of
        Absent \<Rightarrow> Inr current
      | Unparseable \<Rightarrow> Inl SyntaxError
      | Parsed parsed \<Rightarrow> Inr parsed)"

definition loadChecks :: "stored \<Rightarrow> json set \<Rightarrow> exn + json set" where
  "loadChecks saved current =
     (case saved of
        Absent \<Rightarrow> Inr current
      | Unparseable \<Rightarrow> Inl SyntaxError
      | Parsed parsed \<Rightarrow> newSet parsed)"

text \<open>
  The whole effect: \<open>Inl\<close> is the exception that escapes it (React then unmounts the
  component tree), \<open>Inr\<close> the cells after it.
\<close>

definition loadFromLocalStorage ::
  "(json \<Rightarrow> exn + bool) \<Rightarrow> Storage \<Rightarrow> Loaded \<Rightarrow> exn + Loaded" where
  "loadFromLocalStorage gt0 st cur =
     (let book = loadCookbook gt0 (stored_cookbook st) (loaded_cookbook cur)
      in case loadPlain (stored_weekPlan st) (loaded_weekPlan cur) of
           Inl e \<Rightarrow> Inl e
         | Inr plan \<Rightarrow>
             (case loadPlain (stored_userSettings st) (loaded_settings cur) of
                Inl e \<Rightarrow> Inl e
              | Inr sett \<Rightarrow>
                  (case loadChecks (stored_checkedItems st) (loaded_checkedItems cur) of
                     Inl e \<Rightarrow> Inl e
                   | Inr checks \<Rightarrow>
                       Inr \<lparr>loaded_cookbook = book, loaded_weekPlan = plan,
                            loaded_settings = sett, loaded_checkedItems = checks\<rparr>)))"

section \<open>Example data\<close>

text \<open>
  The ingredients of the specification's example scenario, a row as the edit form leaves
  it (strings in the numeric fields), an analysis with three variations, two saved
  recipes and a small week plan.
\<close>

definition ex_tofu :: IngredientItem where
  "ex_tofu = \<lparr>calories = JNum (Val 150), protein = JNum (Val 20), fat = JNum (Val 5),
              carbs = JNum (Val 3), amount = ''200g'', item = ''Tofu''\<rparr>"

definition ex_rice :: IngredientItem where
  "ex_rice = \<lparr>calories = JNum (Val 130), protein = JNum (Val 3), fat = JNum (Val 0),
              carbs = JNum (Val 29), amount = ''100g'', item = ''Rice''\<rparr>"








definition ex_analysis :: RecipeAnalysis where
  "ex_analysis =
     \<lparr>title = ''Tofu Bowl'',
      original_macros = \<lparr>calories = Val 300, protein = Val 20, fat = Val 6, carbs = Val 30\<rparr>,
      variations = (\<lambda>k. case k of
          Proteins \<Rightarrow> \<lparr>ingredients = [ex_tofu], notes_text = ''more tofu'', steps = []\<rparr>
        | Balanced \<Rightarrow> \<lparr>ingredients = [ex_tofu, ex_rice], notes_text = ''both'',
                        steps = [\<lparr>step_text = ''Boil rice'', timer_seconds = Some 600\<rparr>]\<rparr>
        | Carbs \<Rightarrow> \<lparr>ingredients = [ex_rice], notes_text = ''more rice'', steps = []\<rparr>)\<rparr>"

definition ex_recipeA :: SavedRecipe where
  "ex_recipeA = \<lparr>sr_id = ''recipeA'', sr_title = ''Tofu Bowl'', sr_timestamp = 1,
                 sr_analysis = ex_analysis\<rparr>"

definition ex_recipeB :: SavedRecipe where
  "ex_recipeB = \<lparr>sr_id = ''recipeB'', sr_title = ''Rice Bowl'', sr_timestamp = 2,
                 sr_analysis = ex_analysis\<lparr>title := ''Rice Bowl''\<rparr>\<rparr>"

definition ex_planMon :: DayPlan where
  "ex_planMon = \<lparr>date = ''2024-06-10'', recipeId = Some ''recipeA'', variation = Some Balanced\<rparr>"

definition ex_planWed :: DayPlan where
  "ex_planWed = \<lparr>date = ''2024-06-12'', recipeId = Some ''recipeB'', variation = Some Carbs\<rparr>"

definition ex_planNoVariation :: DayPlan where
  "ex_planNoVariation = \<lparr>date = ''2024-06-11'', recipeId = Some ''recipeA'', variation = None\<rparr>"

definition ex_planNextWeek :: DayPlan where
  "ex_planNextWeek =
     \<lparr>date = ''2024-06-17'', recipeId = Some ''recipeA'', variation = Some Proteins\<rparr>"

text \<open>The Results screen of \<open>ex_analysis\<close> on the Balanced tab, with the rice row deleted
  from the edit buffer and the title retyped.\<close>

definition ex_results :: App where
  "ex_results =
     initialApp\<lparr>appState := RESULTS, analysis := Some ex_analysis, activeTab := Balanced,
                currentIngredients := [ex_tofu], currentTitle := ''My Bowl'',
                textInput := ''tofu and rice'', selectedImages := [''aGVsbG8='']\<rparr>"

definition ex_localeCompare :: "string \<Rightarrow> string \<Rightarrow> int" where
  "ex_localeCompare a b = (if a < b then - 1 else if a = b then 0 else 1)"

text \<open>A gateway that answers, and one whose SDK call throws.\<close>

definition ex_gemini_ok :: Gemini where
  "ex_gemini_ok =
     \<lparr>API_KEY = ''key'', getSystemPrompt = (\<lambda>u. ''prompt''),
      generateContent = (\<lambda>r. Inr (Some ''json'')),
      JSON_parse = (\<lambda>t. Inr ex_analysis)\<rparr>"

definition ex_gemini_down :: Gemini where
  "ex_gemini_down =
     \<lparr>API_KEY = ''key'', getSystemPrompt = (\<lambda>u. ''prompt''),
      generateContent = (\<lambda>r. Inl ''quota exceeded''),
      JSON_parse = (\<lambda>t. Inr ex_analysis)\<rparr>"

text \<open>A stored cookbook whose second entry has no \<^verbatim>\<open>analysis\<close>.\<close>

definition ex_cookbookJson :: json where
  "ex_cookbookJson =
     JsArray
       [JsObject [(''id'', JsString ''1''), (''title'', JsString ''A''),
                  (''timestamp'', JsNumber 1), (''analysis'', JsObject [])],
        JsObject [(''id'', JsString ''2''), (''title'', JsString ''B''),
                  (''timestamp'', JsNumber 2)]]"

definition ex_gt0 :: "json \<Rightarrow> exn + bool" where
  "ex_gt0 v = (case v of JsNumber n \<Rightarrow> Inr (n > 0) | JsBool b \<Rightarrow> Inr b | _ \<Rightarrow> Inr False)"

text \<open>The Input screen with a pasted text and one captured image.\<close>

definition ex_input :: App where
  "ex_input = initialApp\<lparr>appState := INPUT, textInput := ''tofu and rice'',
                         selectedImages := [''aGVsbG8='']\<rparr>"

text \<open>An entry of the stored cookbook, by position.\<close>

definition ex_cookbookJson_entry :: "nat \<Rightarrow> json" where
  "ex_cookbookJson_entry i = (case ex_cookbookJson of JsArray xs \<Rightarrow> xs ! i | _ \<Rightarrow> JsNull)"

section \<open>Planner: one plan per date\<close>

text \<open>
  Claim C1. With a non-empty target date \<open>d\<close> pending in \<^verbatim>\<open>selectingForDate\<close> (an ISO date
  string is never empty), \<^verbatim>\<open>assignToDate\<close> leaves exactly one \<^verbatim>\<open>DayPlan\<close> for \<open>d\<close>, the
  newly assigned recipe and variation, whatever the plan held before; it keeps the
  invariant "at most one plan per date"; and assigning twice to the same date leaves
  exactly the second assignment.
\<close>

theorem assignToDate_single:
  assumes "selectingForDate s = Some d" and "d \<noteq> ''''"
  shows "filter (\<lambda>p. date p = d) (weekPlan (assignToDate r v s))
           = [\<lparr>date = d, recipeId = Some r, variation = Some v\<rparr>]
       \<and> (distinct (map date (weekPlan s))
            \<longrightarrow> distinct (map date (weekPlan (assignToDate r v s))))
       \<and> filter (\<lambda>p. date p = d)
            (weekPlan (assignToDate r2 v2 (selectDate d (assignToDate r v s))))
           = [\<lparr>date = d, recipeId = Some r2, variation = Some v2\<rparr>]"
  using assms
  by (auto simp: assignToDate_def selectDate_def Let_def filter_empty_conv
        distinct_map_filter)

theorem assignToDate_single_witness:
  "filter (\<lambda>p. date p = ''2024-06-10'')
     (weekPlan (assignToDate ''recipeB'' Carbs
        (selectDate ''2024-06-10'' (initialApp\<lparr>weekPlan := [ex_planMon, ex_planWed]\<rparr>))))
     = [\<lparr>date = ''2024-06-10'', recipeId = Some ''recipeB'', variation = Some Carbs\<rparr>]
   \<and> distinct (map date (weekPlan (assignToDate ''recipeB'' Carbs
        (selectDate ''2024-06-10'' (initialApp\<lparr>weekPlan := [ex_planMon, ex_planWed]\<rparr>)))))"
  using assignToDate_single
          [of "selectDate ''2024-06-10'' (initialApp\<lparr>weekPlan := [ex_planMon, ex_planWed]\<rparr>)"
              "''2024-06-10''" "''recipeB''" Carbs "''recipeB''" Carbs]
  by (simp add: selectDate_def ex_planMon_def ex_planWed_def)

text \<open>
  Claim C9. \<^verbatim>\<open>clearDate d\<close> leaves no \<^verbatim>\<open>DayPlan\<close> with date \<open>d\<close>, and the plans for the other
  dates are the ones that were there, in the same order.
\<close>

theorem clearDate_removes:
  "filter (\<lambda>p. date p = d) (weekPlan (clearDate d s)) = []
   \<and> d \<notin> date ` set (weekPlan (clearDate d s))
   \<and> filter (\<lambda>p. date p \<noteq> d) (weekPlan (clearDate d s))
       = filter (\<lambda>p. date p \<noteq> d) (weekPlan s)"
  by (auto simp: clearDate_def filter_empty_conv)

theorem clearDate_removes_witness:
  "weekPlan (clearDate ''2024-06-10'' (initialApp\<lparr>weekPlan := [ex_planMon, ex_planWed]\<rparr>))
     = [ex_planWed]"
  using clearDate_removes [of "''2024-06-10''" "initialApp\<lparr>weekPlan := [ex_planMon, ex_planWed]\<rparr>"]
  by (simp add: clearDate_def ex_planMon_def ex_planWed_def)

section \<open>Macro aggregator: the field-wise sum\<close>










section \<open>Saving from Results\<close>

lemma syncCookbook_frame:
  "cookbook (syncCookbook s) = cookbook s"
  "textInput (syncCookbook s) = textInput s"
  "selectedImages (syncCookbook s) = selectedImages s"
  by (simp_all add: syncCookbook_def split: option.splits)

text \<open>
  Claim C3. When an analysis \<open>a\<close> is displayed, \<^verbatim>\<open>saveNewRecipe\<close> puts a new recipe at the
  front of the cookbook. Its title is the edited title; in its analysis the active
  variation has the edited ingredient buffer (and the notes and steps of \<open>a\<close>), and
  each of the two other variations is that of \<open>a\<close>. The text and image buffers are
  cleared.
\<close>

theorem saveNewRecipe_merges:
  assumes "analysis s = Some a"
  shows "\<exists>r. cookbook (saveNewRecipe now_id now_ts s) = r # cookbook s
           \<and> sr_id r = toString now_id
           \<and> sr_timestamp r = now_ts
           \<and> sr_title r = currentTitle s
           \<and> title (sr_analysis r) = currentTitle s
           \<and> original_macros (sr_analysis r) = original_macros a
           \<and> ingredients (variations (sr_analysis r) (activeTab s)) = currentIngredients s
           \<and> notes_text (variations (sr_analysis r) (activeTab s))
               = notes_text (variations a (activeTab s))
           \<and> steps (variations (sr_analysis r) (activeTab s))
               = steps (variations a (activeTab s))
           \<and> (\<forall>k. k \<noteq> activeTab s \<longrightarrow> variations (sr_analysis r) k = variations a k)
           \<and> textInput (saveNewRecipe now_id now_ts s) = ''''
           \<and> selectedImages (saveNewRecipe now_id now_ts s) = []"
  using assms
  by (simp add: saveNewRecipe_def Let_def syncCookbook_frame)

theorem saveNewRecipe_merges_witness:
  "analysis ex_results = Some ex_analysis
   \<and> (\<exists>r. cookbook (saveNewRecipe 1718000000000 1718000000001 ex_results) = [r]
          \<and> sr_title r = ''My Bowl''
          \<and> ingredients (variations (sr_analysis r) Balanced) = [ex_tofu]
          \<and> ingredients (variations (sr_analysis r) Proteins) = [ex_tofu]
          \<and> ingredients (variations (sr_analysis r) Carbs) = [ex_rice])
   \<and> textInput (saveNewRecipe 1718000000000 1718000000001 ex_results) = ''''
   \<and> selectedImages (saveNewRecipe 1718000000000 1718000000001 ex_results) = []"
proof -
  have h: "analysis ex_results = Some ex_analysis"
    by (simp add: ex_results_def)
  have st: "activeTab ex_results = Balanced" "currentIngredients ex_results = [ex_tofu]"
    "currentTitle ex_results = ''My Bowl''" "cookbook ex_results = []"
    by (simp_all add: ex_results_def initialApp_def)
  have va: "ingredients (variations ex_analysis Proteins) = [ex_tofu]"
    "ingredients (variations ex_analysis Carbs) = [ex_rice]"
    by (simp_all add: ex_analysis_def)
  from saveNewRecipe_merges [OF h, of 1718000000000 1718000000001]
  show ?thesis using h by (auto simp: st va)
qed

section \<open>Switching tabs in Results\<close>

lemma syncCookbook_RESULTS: "appState s = RESULTS \<Longrightarrow> syncCookbook s = s"
  by (simp add: syncCookbook_def split: option.splits)

text \<open>
  Claim C5, as amended. In the Results state with analysis \<open>a\<close> and active tab \<open>A\<close>, for
  every tab \<open>B\<close> different from \<open>A\<close>: switching to \<open>B\<close> and back to \<open>A\<close>, with no save in
  between, leaves the edit buffer equal to the ingredient list stored for \<open>A\<close> in \<open>a\<close>,
  whatever had been edited in the buffer before the first switch (\<open>edited\<close>) and while
  \<open>B\<close> was shown (\<open>edited'\<close>).
\<close>

theorem switch_and_back_restores:
  assumes "appState s = RESULTS" and "analysis s = Some a" and "activeTab s = A"
    and "A \<noteq> B"
  shows "currentIngredients
           (setActiveTab A ((setActiveTab B (s\<lparr>currentIngredients := edited\<rparr>))
                              \<lparr>currentIngredients := edited'\<rparr>))
         = ingredients (variations a A)"
  using assms
  by (simp add: setActiveTab_def syncResults_def syncCookbook_RESULTS)

theorem switch_and_back_restores_witness:
  "appState ex_results = RESULTS \<and> analysis ex_results = Some ex_analysis
   \<and> activeTab ex_results = Balanced \<and> Balanced \<noteq> Carbs
   \<and> currentIngredients
       (setActiveTab Balanced ((setActiveTab Carbs (ex_results\<lparr>currentIngredients := [ex_tofu]\<rparr>))
                                 \<lparr>currentIngredients := []\<rparr>))
     = [ex_tofu, ex_rice]"
proof -
  have h: "appState ex_results = RESULTS" "analysis ex_results = Some ex_analysis"
    "activeTab ex_results = Balanced" "Balanced \<noteq> Carbs"
    by (simp_all add: ex_results_def)
  have "ingredients (variations ex_analysis Balanced) = [ex_tofu, ex_rice]"
    by (simp add: ex_analysis_def)
  with switch_and_back_restores [OF h, where edited = "[ex_tofu]" and edited' = "[]"] h
  show ?thesis by simp
qed

text \<open>
  Claim C5 as stated takes every pair of tabs, so also \<open>A = B\<close>. Choosing the tab that is
  already active changes no state cell, the effect does not run, and the edited buffer
  stays: here the buffer of the Balanced tab keeps the deleted rice row deleted.
\<close>

theorem switch_same_tab_keeps_edits:
  "appState ex_results = RESULTS \<and> analysis ex_results = Some ex_analysis
   \<and> activeTab ex_results = Balanced
   \<and> currentIngredients (setActiveTab Balanced (setActiveTab Balanced ex_results)) = [ex_tofu]
   \<and> ingredients (variations ex_analysis Balanced) = [ex_tofu, ex_rice]
   \<and> currentIngredients (setActiveTab Balanced (setActiveTab Balanced ex_results))
       \<noteq> ingredients (variations ex_analysis Balanced)"
  by (simp add: ex_results_def initialApp_def setActiveTab_def ex_analysis_def)

section \<open>Shopping list: the aggregation\<close>

lemma foldl_snoc_map: "foldl (\<lambda>a x. a @ [f x]) acc xs = acc @ map f xs"
  by (induction xs arbitrary: acc) simp_all

lemma foldl_append_concat:
  assumes "\<And>a x. g a x = a @ g [] x"
  shows "foldl g acc xs = acc @ concat (map (g []) xs)"
proof (induction xs arbitrary: acc)
  case Nil
  show ?case by simp
next
  case (Cons x xs)
  have "foldl g acc (x # xs) = foldl g (g acc x) xs" by simp
  also have "\<dots> = g acc x @ concat (map (g []) xs)" by (rule Cons.IH)
  also have "g acc x = acc @ g [] x" by (rule assms)
  finally show ?case by simp
qed

lemma collectPlan_append: "collectPlan book acc p = acc @ collectPlan book [] p"
  by (simp add: collectPlan_def case_prod_unfold foldl_snoc_map split: option.splits)

lemma allIngredients_concat:
  "allIngredients startStr endStr plans book
     = concat (map (collectPlan book []) (activePlans startStr endStr plans))"
  unfolding allIngredients_def
  using foldl_append_concat [of "collectPlan book" "[]", OF collectPlan_append]
  by simp

lemma map_enumerate_nth:
  "map (\<lambda>x. f (fst x) (snd x)) (enumerate 0 xs) = map (\<lambda>i. f i (xs ! i)) [0 ..< length xs]"
  by (rule nth_equalityI) (simp_all add: nth_enumerate_eq)

lemma findRecipe_Some_id: "findRecipe book rid = Some r \<Longrightarrow> Some (sr_id r) = rid"
  by (auto simp: findRecipe_def find_Some_iff)

lemma findRecipe_None_iff:
  "findRecipe book rid = None \<longleftrightarrow> \<not> (\<exists>r \<in> set book. Some (sr_id r) = rid)"
  by (auto simp: findRecipe_def find_None_iff)

lemma collectPlan_planEntries:
  "collectPlan book [] p
     = (if (\<exists>r \<in> set book. Some (sr_id r) = recipeId p) \<and> variation p \<noteq> None
        then planEntries book p else [])"
proof (cases "findRecipe book (recipeId p)")
  case None
  then have "\<not> (\<exists>r \<in> set book. Some (sr_id r) = recipeId p)"
    using findRecipe_None_iff [of book "recipeId p"] by blast
  moreover from None have "collectPlan book [] p = []"
    by (simp add: collectPlan_def)
  ultimately show ?thesis by simp
next
  case (Some r)
  then have ex: "\<exists>r \<in> set book. Some (sr_id r) = recipeId p"
    using findRecipe_None_iff [of book "recipeId p"] by simp
  from Some have rid: "recipeId p = Some (sr_id r)"
    by (simp add: findRecipe_Some_id)
  show ?thesis
  proof (cases "variation p")
    case None
    with Some show ?thesis by (simp add: collectPlan_def)
  next
    case v: (Some v)
    let ?ings = "ingredients (variations (sr_analysis r) v)"
    let ?mk = "\<lambda>i ing. \<lparr>entry_date = date p, entry_title = sr_title r, entry_item = ing,
                         entry_id = entryId (date p) (sr_id r) i\<rparr>"
    have "collectPlan book [] p = map (\<lambda>x. ?mk (fst x) (snd x)) (enumerate 0 ?ings)"
      using Some v by (simp add: collectPlan_def case_prod_unfold foldl_snoc_map)
    also have "\<dots> = map (\<lambda>i. ?mk i (?ings ! i)) [0 ..< length ?ings]"
      by (rule map_enumerate_nth)
    also have "\<dots> = planEntries book p"
      using Some v rid by (simp add: planEntries_def entryId_def Let_def)
    finally show ?thesis using ex v by simp
  qed
qed

lemma concat_map_filter_cong:
  assumes "\<And>x. (if P x then g x else []) = (if Q x then h x else [])"
  shows "concat (map g (filter P xs)) = concat (map h (filter Q xs))"
proof (induction xs)
  case Nil
  show ?case by simp
next
  case (Cons x xs)
  from assms [of x] Cons.IH show ?case by (auto split: if_splits)
qed

text \<open>
  Claim C6, as amended. The aggregation lists, plan by plan in the order of the week
  plan, one entry per ingredient of each contributing \<^verbatim>\<open>DayPlan\<close>: the plan's date, the
  title of the recipe it resolves to, the ingredient, and the id
  \<open>date-recipeId-index\<close> with the ingredient's index in the chosen variation's list. A
  plan contributes exactly when its date lies in the closed interval, its recipe id
  resolves to a cookbook entry, and its variation is present.
\<close>

theorem allIngredients_entries:
  "allIngredients startStr endStr plans book
     = concat (map (planEntries book) (filter (contributes startStr endStr book) plans))"
  unfolding allIngredients_concat activePlans_def
  by (rule concat_map_filter_cong) (auto simp: collectPlan_planEntries contributes_def)

theorem allIngredients_entries_witness:
  "allIngredients ''2024-06-10'' ''2024-06-16''
      [ex_planWed, ex_planNextWeek, ex_planMon] [ex_recipeA, ex_recipeB]
     = [\<lparr>entry_date = ''2024-06-12'', entry_title = ''Rice Bowl'', entry_item = ex_rice,
         entry_id = ''2024-06-12-recipeB-0''\<rparr>,
        \<lparr>entry_date = ''2024-06-10'', entry_title = ''Tofu Bowl'', entry_item = ex_tofu,
         entry_id = ''2024-06-10-recipeA-0''\<rparr>,
        \<lparr>entry_date = ''2024-06-10'', entry_title = ''Tofu Bowl'', entry_item = ex_rice,
         entry_id = ''2024-06-10-recipeA-1''\<rparr>]"
  using allIngredients_entries [of "''2024-06-10''" "''2024-06-16''"
          "[ex_planWed, ex_planNextWeek, ex_planMon]" "[ex_recipeA, ex_recipeB]"]
  by (simp add: contributes_def planEntries_def findRecipe_def ex_planWed_def
        ex_planNextWeek_def ex_planMon_def ex_recipeA_def ex_recipeB_def ex_analysis_def
        toString.simps upt_rec [of 0 2] upt_rec [of 1 2] upt_rec [of 0 1])

text \<open>
  Claim C6 as stated lets a plan contribute whenever its date is in the interval and
  its recipe resolves. A plan that has both but no variation contributes nothing, though
  every variation of its recipe has ingredients.
\<close>

theorem allIngredients_needs_variation:
  "''2024-06-10'' \<le> date ex_planNoVariation \<and> date ex_planNoVariation \<le> ''2024-06-16''
   \<and> findRecipe [ex_recipeA] (recipeId ex_planNoVariation) = Some ex_recipeA
   \<and> ingredients (variations (sr_analysis ex_recipeA) Proteins) \<noteq> []
   \<and> ingredients (variations (sr_analysis ex_recipeA) Balanced) \<noteq> []
   \<and> ingredients (variations (sr_analysis ex_recipeA) Carbs) \<noteq> []
   \<and> allIngredients ''2024-06-10'' ''2024-06-16'' [ex_planNoVariation] [ex_recipeA] = []"
  by (simp add: ex_planNoVariation_def ex_recipeA_def ex_analysis_def findRecipe_def
        allIngredients_def activePlans_def collectPlan_def)

text \<open>
  Claim C10. A \<^verbatim>\<open>DayPlan\<close> without a variation adds no line entry: the aggregated list is
  the same with and without it, also when its date is in the interval and its recipe
  resolves, and the by-date view draws no card for it.
\<close>

theorem absent_variation_no_entries:
  assumes "variation p = None"
  shows "allIngredients startStr endStr (before @ p # after) book
           = allIngredients startStr endStr (before @ after) book
       \<and> allIngredients startStr endStr [p] book = []
       \<and> recipeCard book checked p = None"
  using assms
  by (simp add: allIngredients_concat activePlans_def collectPlan_def recipeCard_def
        split: option.splits)

theorem absent_variation_no_entries_witness:
  "variation ex_planNoVariation = None
   \<and> ''2024-06-10'' \<le> date ex_planNoVariation \<and> date ex_planNoVariation \<le> ''2024-06-16''
   \<and> findRecipe [ex_recipeA] (recipeId ex_planNoVariation) = Some ex_recipeA
   \<and> allIngredients ''2024-06-10'' ''2024-06-16'' [ex_planMon, ex_planNoVariation] [ex_recipeA]
       = allIngredients ''2024-06-10'' ''2024-06-16'' [ex_planMon] [ex_recipeA]
   \<and> recipeCard [ex_recipeA] {} ex_planNoVariation = None"
proof -
  have h: "variation ex_planNoVariation = None"
    by (simp add: ex_planNoVariation_def)
  have "''2024-06-10'' \<le> date ex_planNoVariation \<and> date ex_planNoVariation \<le> ''2024-06-16''
        \<and> findRecipe [ex_recipeA] (recipeId ex_planNoVariation) = Some ex_recipeA"
    by (simp add: ex_planNoVariation_def ex_recipeA_def findRecipe_def)
  with absent_variation_no_entries
         [OF h, of "''2024-06-10''" "''2024-06-16''" "[ex_planMon]" "[]" "[ex_recipeA]" "{}"] h
  show ?thesis by simp
qed

section \<open>Shopping list: the two views\<close>

lemma mset_js_insert: "mset (js_insert cmp x xs) = add_mset x (mset xs)"
  by (induction xs) simp_all

lemma mset_js_sort: "mset (js_sort cmp xs) = mset xs"
  by (induction xs) (simp_all add: mset_js_insert)

lemma mset_concat_map_cong:
  assumes "mset xs = mset ys"
  shows "mset (concat (map f xs)) = mset (concat (map f ys))"
proof -
  have "mset (concat (map f zs)) = (\<Sum>z\<in>#mset zs. mset (f z))" for zs
    by (induction zs) simp_all
  with assms show ?thesis by simp
qed

lemma cardEntries_recipeCard:
  "cardEntries (recipeCard book checked p)
     = map (\<lambda>e. (e, entry_id e \<in> checked)) (collectPlan book [] p)"
  by (simp add: cardEntries_def recipeCard_def collectPlan_def foldl_snoc_map
        case_prod_unfold Let_def o_def split: option.splits)

text \<open>
  Claim C4. For every week plan, cookbook, set of checked ids and interval, the
  alphabetical view and the by-date view show the same multiset of line entries (date,
  recipe title, ingredient, id, and the check mark looked up by the id); only the order
  differs.
\<close>

theorem views_same_entries:
  "mset (lineEntries
           (renderShoppingList localeCompare ALPHA startStr endStr plans book checked))
   = mset (lineEntries
             (renderShoppingList localeCompare RECIPE startStr endStr plans book checked))"
proof (cases "activePlans startStr endStr plans = []")
  case True
  then show ?thesis by (simp add: renderShoppingList_def)
next
  case False
  let ?k = "\<lambda>e. (e, entry_id e \<in> checked)"
  let ?act = "activePlans startStr endStr plans"
  let ?all = "allIngredients startStr endStr plans book"
  have alpha:
    "mset (lineEntries (AlphaList (alphaView localeCompare startStr endStr plans book checked)))
       = image_mset ?k (mset ?all)"
    by (simp add: alphaView_def o_def mset_js_sort)
  have "concat (map cardEntries (recipeView localeCompare startStr endStr plans book checked))
        = concat (map (\<lambda>p. map ?k (collectPlan book [] p))
                   (js_sort (\<lambda>a b. localeCompare (date a) (date b)) ?act))"
    by (simp add: recipeView_def o_def cardEntries_recipeCard)
  also have "mset \<dots> = mset (concat (map (\<lambda>p. map ?k (collectPlan book [] p)) ?act))"
    by (rule mset_concat_map_cong) (rule mset_js_sort)
  also have "concat (map (\<lambda>p. map ?k (collectPlan book [] p)) ?act) = map ?k ?all"
    by (simp add: allIngredients_concat map_concat o_def)
  finally have
    "mset (lineEntries (RecipeCards (recipeView localeCompare startStr endStr plans book checked)))
       = image_mset ?k (mset ?all)"
    by simp
  with alpha False show ?thesis by (simp add: renderShoppingList_def)
qed

theorem views_same_entries_witness:
  "map (entry_id \<circ> fst)
     (lineEntries (renderShoppingList ex_localeCompare ALPHA ''2024-06-10'' ''2024-06-16''
        [ex_planWed, ex_planMon] [ex_recipeA, ex_recipeB] {''2024-06-10-recipeA-0''}))
     = [''2024-06-12-recipeB-0'', ''2024-06-10-recipeA-1'', ''2024-06-10-recipeA-0'']
   \<and> map (entry_id \<circ> fst)
     (lineEntries (renderShoppingList ex_localeCompare RECIPE ''2024-06-10'' ''2024-06-16''
        [ex_planWed, ex_planMon] [ex_recipeA, ex_recipeB] {''2024-06-10-recipeA-0''}))
     = [''2024-06-10-recipeA-0'', ''2024-06-10-recipeA-1'', ''2024-06-12-recipeB-0'']
   \<and> mset (lineEntries (renderShoppingList ex_localeCompare ALPHA ''2024-06-10'' ''2024-06-16''
        [ex_planWed, ex_planMon] [ex_recipeA, ex_recipeB] {''2024-06-10-recipeA-0''}))
     = mset (lineEntries (renderShoppingList ex_localeCompare RECIPE ''2024-06-10'' ''2024-06-16''
        [ex_planWed, ex_planMon] [ex_recipeA, ex_recipeB] {''2024-06-10-recipeA-0''}))"
proof -
  have act: "activePlans ''2024-06-10'' ''2024-06-16'' [ex_planWed, ex_planMon]
               = [ex_planWed, ex_planMon]"
    by (simp add: activePlans_def ex_planWed_def ex_planMon_def)
  have wed: "collectPlan [ex_recipeA, ex_recipeB] [] ex_planWed
               = [\<lparr>entry_date = ''2024-06-12'', entry_title = ''Rice Bowl'', entry_item = ex_rice,
                   entry_id = ''2024-06-12-recipeB-0''\<rparr>]"
    by (simp add: collectPlan_def findRecipe_def ex_planWed_def ex_recipeA_def ex_recipeB_def
          ex_analysis_def entryId_def toString.simps)
  have mon: "collectPlan [ex_recipeA, ex_recipeB] [] ex_planMon
               = [\<lparr>entry_date = ''2024-06-10'', entry_title = ''Tofu Bowl'', entry_item = ex_tofu,
                   entry_id = ''2024-06-10-recipeA-0''\<rparr>,
                  \<lparr>entry_date = ''2024-06-10'', entry_title = ''Tofu Bowl'', entry_item = ex_rice,
                   entry_id = ''2024-06-10-recipeA-1''\<rparr>]"
    by (simp add: collectPlan_def findRecipe_def ex_planMon_def ex_recipeA_def
          ex_analysis_def entryId_def toString.simps)
  have dates: "date ex_planWed = ''2024-06-12''" "date ex_planMon = ''2024-06-10''"
    by (simp_all add: ex_planWed_def ex_planMon_def)
  have items: "item ex_rice = ''Rice''" "item ex_tofu = ''Tofu''"
    by (simp_all add: ex_rice_def ex_tofu_def)
  have alpha: "map (entry_id \<circ> fst)
     (lineEntries (renderShoppingList ex_localeCompare ALPHA ''2024-06-10'' ''2024-06-16''
        [ex_planWed, ex_planMon] [ex_recipeA, ex_recipeB] {''2024-06-10-recipeA-0''}))
     = [''2024-06-12-recipeB-0'', ''2024-06-10-recipeA-1'', ''2024-06-10-recipeA-0'']"
    by (simp add: renderShoppingList_def act alphaView_def allIngredients_concat wed mon
          items ex_localeCompare_def)
  have bydate: "map (entry_id \<circ> fst)
     (lineEntries (renderShoppingList ex_localeCompare RECIPE ''2024-06-10'' ''2024-06-16''
        [ex_planWed, ex_planMon] [ex_recipeA, ex_recipeB] {''2024-06-10-recipeA-0''}))
     = [''2024-06-10-recipeA-0'', ''2024-06-10-recipeA-1'', ''2024-06-12-recipeB-0'']"
    by (simp add: renderShoppingList_def act recipeView_def cardEntries_recipeCard wed mon
          dates ex_localeCompare_def)
  from alpha bydate
    views_same_entries [of ex_localeCompare "''2024-06-10''" "''2024-06-16''"
      "[ex_planWed, ex_planMon]" "[ex_recipeA, ex_recipeB]" "{''2024-06-10-recipeA-0''}"]
  show ?thesis by simp
qed

section \<open>Analyze: one gateway call, Results or Error\<close>

text \<open>
  Claim C7. For every state (settings, captured images, captured text) and every
  behaviour of the service: when the gateway call returns an analysis, \<^verbatim>\<open>handleAnalyze\<close>
  ends in the Results state holding exactly that analysis, with the Balanced tab active;
  when the call fails it ends in the Error state carrying the message of the failure
  (which is never empty). In both cases the handler has called the gateway exactly once,
  with the settings, images and text of the state, and that call has issued at most one
  request to the service.
\<close>

theorem handleAnalyze_outcome:
  "(case fst (analyzeRecipeWithGemini env (settings s) (selectedImages s) (textInput s)) of
      Inr a \<Rightarrow>
        appState (fst (handleAnalyze env s)) = RESULTS
        \<and> analysis (fst (handleAnalyze env s)) = Some a
        \<and> activeTab (fst (handleAnalyze env s)) = Balanced
        \<and> currentIngredients (fst (handleAnalyze env s)) = ingredients (variations a Balanced)
    | Inl m \<Rightarrow>
        appState (fst (handleAnalyze env s)) = ERROR
        \<and> errorMsg (fst (handleAnalyze env s)) = Some m
        \<and> m \<noteq> '''')
   \<and> \<not> isLoading (fst (handleAnalyze env s))
   \<and> snd (handleAnalyze env s)
       = [\<lparr>call_settings = settings s, call_images = selectedImages s,
           call_text = textInput s,
           call_requests =
             snd (analyzeRecipeWithGemini env (settings s) (selectedImages s) (textInput s))\<rparr>]
   \<and> length (snd (analyzeRecipeWithGemini env (settings s) (selectedImages s) (textInput s)))
       \<le> 1"
proof -
  obtain outcome reqs where
    g: "analyzeRecipeWithGemini env (settings s) (selectedImages s) (textInput s)
          = (outcome, reqs)"
    by (cases "analyzeRecipeWithGemini env (settings s) (selectedImages s) (textInput s)")
  have len: "length reqs \<le> 1"
    using g by (auto simp: analyzeRecipeWithGemini_def Let_def split: if_splits)
  have msg: "m \<noteq> ''''" if "outcome = Inl m" for m
    using g that
    by (auto simp: analyzeRecipeWithGemini_def Let_def
          split: if_splits sum.splits option.splits)
  show ?thesis
  proof (cases outcome)
    case (Inl m)
    with g len msg [of m] show ?thesis
      by (simp add: handleAnalyze_def syncResults_def Let_def split: option.splits)
  next
    case (Inr a)
    with g len show ?thesis
      by (simp add: handleAnalyze_def syncResults_def Let_def)
  qed
qed

theorem handleAnalyze_outcome_witness:
  "appState (fst (handleAnalyze ex_gemini_ok ex_input)) = RESULTS
   \<and> analysis (fst (handleAnalyze ex_gemini_ok ex_input))
       = Some ex_analysis
   \<and> activeTab (fst (handleAnalyze ex_gemini_ok ex_input)) = Balanced
   \<and> length (snd (handleAnalyze ex_gemini_ok ex_input)) = 1
   \<and> appState (fst (handleAnalyze ex_gemini_down ex_input)) = ERROR
   \<and> errorMsg (fst (handleAnalyze ex_gemini_down ex_input))
       = Some ''quota exceeded''
   \<and> length (snd (handleAnalyze ex_gemini_down ex_input)) = 1"
proof -
  have ok: "fst (analyzeRecipeWithGemini ex_gemini_ok
                   (settings ex_input)
                   (selectedImages ex_input)
                   (textInput ex_input)) = Inr ex_analysis"
    by (simp add: analyzeRecipeWithGemini_def ex_gemini_ok_def ex_input_def Let_def)
  have down: "fst (analyzeRecipeWithGemini ex_gemini_down
                   (settings ex_input)
                   (selectedImages ex_input)
                   (textInput ex_input)) = Inl ''quota exceeded''"
    by (simp add: analyzeRecipeWithGemini_def ex_gemini_down_def ex_input_def Let_def)
  from handleAnalyze_outcome [of ex_gemini_ok ex_input]
       handleAnalyze_outcome [of ex_gemini_down ex_input]
  show ?thesis by (simp add: ok down)
qed

section \<open>Loading: what an incompatible slot does\<close>

text \<open>
  Claim C8 asks that a stored value that does not parse, or does not have the slot's
  shape, leave the state as if the slot were absent. The cookbook branch does so for
  unparseable text, inside its \<^verbatim>\<open>try\<close>. The week plan, the settings and the checked items
  are parsed outside any \<^verbatim>\<open>try\<close>: with unparseable text under \<^verbatim>\<open>weekPlan\<close> the effect throws
  instead of ending in the state it reaches when all slots are absent. And the cookbook
  check looks at the first entry only: a stored cookbook whose second entry has no
  \<^verbatim>\<open>analysis\<close> is taken into the state as it is.
\<close>

theorem load_incompatible_slot:
  "loadFromLocalStorage gt0
      \<lparr>stored_cookbook = Absent, stored_weekPlan = Absent, stored_userSettings = Absent,
       stored_checkedItems = Absent\<rparr> initialLoaded
     = Inr initialLoaded
   \<and> loadFromLocalStorage gt0
      \<lparr>stored_cookbook = Unparseable, stored_weekPlan = Absent, stored_userSettings = Absent,
       stored_checkedItems = Absent\<rparr> initialLoaded
     = Inr initialLoaded
   \<and> loadFromLocalStorage gt0
      \<lparr>stored_cookbook = Absent, stored_weekPlan = Unparseable, stored_userSettings = Absent,
       stored_checkedItems = Absent\<rparr> initialLoaded
     = Inl SyntaxError
   \<and> loadFromLocalStorage gt0
      \<lparr>stored_cookbook = Parsed ex_cookbookJson, stored_weekPlan = Absent,
       stored_userSettings = Absent, stored_checkedItems = Absent\<rparr> initialLoaded
     = Inr (initialLoaded\<lparr>loaded_cookbook := ex_cookbookJson\<rparr>)
   \<and> readAnalysis (Some (ex_cookbookJson_entry 1)) = Inr None"
  by (simp add: loadFromLocalStorage_def loadCookbook_def loadPlain_def loadChecks_def
        resetCondition_def ex_cookbookJson_def ex_cookbookJson_entry_def ownProp_def
        initialLoaded_def)

end
